theory Spec2Isabelle
  imports Main "HOL-Library.Sublist"
begin

section \<open>QR code email template generator\<close>

text \<open>
  The repository holds two versions of one page component \<open>Home\<close>. The later one
  (with a template selector and a logo) is modelled under the source's own names; the
  earlier one, \<open>src/pages/index.tsx\<close>, under the same names prefixed with \<open>index_\<close>.

  Component state (the \<open>useState\<close> cells) is a record, and a handler is a function
  from the state it closed over to the state after its setters have run, together with
  the list of effects it had on the outside (alerts, console, network, encoder,
  clipboard). What the browser and the libraries compute is a parameter: the record
  \<open>env\<close>. A promise that rejects is the value \<open>None\<close>.
\<close>

subsection \<open>Data\<close>

type_synonym blob = string

type_synonym File = blob

datatype copy_status = Idle | Copied

text \<open>
  The state cells of \<open>src/pages/index.tsx\<close>; the later version adds four more.
\<close>

record index_state =
  url :: string
  html :: string
  copyStatus :: copy_status

record state = index_state +
  template :: string
  logoUrl :: string
  logoFile :: "File option"
  localLogoDataUri :: string

text \<open>The options object handed to \<open>QRCode.toDataURL\<close>.\<close>

record qr_options =
  width :: nat
  margin :: nat
  dark :: string
  light :: string

text \<open>
  The outside world. \<open>fetch\<close> stands for \<open>fetch(url)\<close> followed by \<open>res.blob()\<close>;
  \<open>readAsDataURL\<close> for a \<open>FileReader\<close> run to its \<open>loadend\<close> (\<open>None\<close>: the read
  failed and \<open>reader.result\<close> is \<open>null\<close>); \<open>toDataURL\<close> for the encoder of the
  \<open>qrcode\<close> package (\<open>None\<close>: it throws); \<open>getFullYear\<close> for
  \<open>new Date().getFullYear()\<close>; \<open>clipboardGranted\<close> says whether
  \<open>navigator.clipboard.writeText\<close> resolves.
\<close>

record browser =
  fetch :: "string \<Rightarrow> blob option"
  readAsDataURL :: "blob \<Rightarrow> string option"
  toDataURL :: "string \<Rightarrow> qr_options \<Rightarrow> string option"
  getFullYear :: nat
  clipboardGranted :: bool

text \<open>The props of the two versions of the page, read from disk at build time.\<close>

record index_env = browser +
  logoDataUri :: string
  iconDataUri :: string

record env = browser +
  defaultLogoDataUri :: string

datatype effect =
    Alert string
  | ConsoleError
  | Fetch string
  | Encode string qr_options
  | WriteText string

datatype error = FetchRejected | ReaderError

subsection \<open>JavaScript values the code relies on\<close>

text \<open>
  \<open>string | null\<close> is \<open>string option\<close>. A value is truthy unless it is \<open>null\<close> or the
  empty string.
\<close>

fun truthy :: "string option \<Rightarrow> bool" where
  "truthy None = False"
| "truthy (Some v) = (v \<noteq> [])"

text \<open>A number interpolated into a template literal is printed in decimal.\<close>

fun toString :: "nat \<Rightarrow> string" where
  "toString n =
     (if n < 10 then [''0123456789'' ! n]
      else toString (n div 10) @ [''0123456789'' ! (n mod 10)])"

declare toString.simps [simp del]

subsection \<open>\<open>templateConfig\<close>\<close>

record config =
  header :: string
  cta :: string

text \<open>
  \<open>templateConfig\<close> is an object literal, so reading \<open>templateConfig[k]\<close> finds its five
  own properties first and then whatever \<open>Object.prototype\<close> provides under the name
  \<open>k\<close>: a function, or for \<open>__proto__\<close> the prototype object itself. All of these are
  truthy and none has a \<open>header\<close> or a \<open>cta\<close>.
\<close>

datatype property = Entry config | Inherited | Undefined

definition objectPrototypeKeys :: "string list" where
  "objectPrototypeKeys =
     [''constructor'', ''__defineGetter__'', ''__defineSetter__'', ''hasOwnProperty'',
      ''__lookupGetter__'', ''__lookupSetter__'', ''isPrototypeOf'',
      ''propertyIsEnumerable'', ''toString'', ''valueOf'', ''__proto__'',
      ''toLocaleString'']"

definition templateConfig :: "string \<Rightarrow> property" where
  "templateConfig k =
     (if k = ''Document'' then Entry \<lparr>
        header = ''Your document is ready to review and sign'',
        cta = ''Scan the QR Code below to view or sign the shared document.'' \<rparr>
      else if k = ''Contract'' then Entry \<lparr>
        header = ''Your contract is ready to review and sign'',
        cta = ''Scan the QR Code below to view or sign the contract.'' \<rparr>
      else if k = ''Invoice'' then Entry \<lparr>
        header = ''Your invoice is ready to view and pay'',
        cta = ''Scan the QR Code below to view or pay the invoice.'' \<rparr>
      else if k = ''Statement'' then Entry \<lparr>
        header = ''Your statement is ready to view'',
        cta = ''Scan the QR Code below to view your statement.'' \<rparr>
      else if k = ''Payment'' then Entry \<lparr>
        header = ''Payment Notification: Your payment details are ready'',
        cta = ''Scan the QR Code below to review and confirm all invoices included in this payment.'' \<rparr>
      else if k \<in> set objectPrototypeKeys then Inherited
      else Undefined)"

text \<open>\<open>a || b\<close> on two property reads.\<close>

fun orElse :: "property \<Rightarrow> property \<Rightarrow> property" where
  "orElse Undefined b = b"
| "orElse a b = a"

text \<open>
  \<open>config.header\<close> and \<open>config.cta\<close> inside a template literal: a missing property
  reads as \<open>undefined\<close> and prints as that word.
\<close>

fun headerText :: "property \<Rightarrow> string" where
  "headerText (Entry c) = header c"
| "headerText p = ''undefined''"

fun ctaText :: "property \<Rightarrow> string" where
  "ctaText (Entry c) = cta c"
| "ctaText p = ''undefined''"

subsection \<open>\<open>fetchLogoDataUri\<close>\<close>

definition fetchLogoDataUri :: "env \<Rightarrow> string \<Rightarrow> error + string" where
  "fetchLogoDataUri e u =
     (case fetch e u of
        None \<Rightarrow> Inl FetchRejected
      | Some blob \<Rightarrow>
          (case readAsDataURL e blob of
             None \<Rightarrow> Inl ReaderError
           | Some result \<Rightarrow> Inr result))"

subsection \<open>\<open>handleFileChange\<close> and the logo URL field\<close>

text \<open>
  \<open>handleFileChange\<close> gets \<open>e.target.files\<close> (possibly \<open>null\<close>). With a file it runs
  two setters and starts a \<open>FileReader\<close>; the read it started is returned beside the
  state, since its \<open>onloadend\<close> callback runs later, as an event of its own.
\<close>

definition handleFileChange :: "File list option \<Rightarrow> state \<Rightarrow> state \<times> File option" where
  "handleFileChange files s =
     (case files of
        None \<Rightarrow> (s, None)
      | Some [] \<Rightarrow> (s, None)
      | Some (f # _) \<Rightarrow> (s\<lparr>logoFile := Some f, logoUrl := []\<rparr>, Some f))"

text \<open>
  The callback \<open>() => setLocalLogoDataUri(reader.result as string)\<close>. After a failed
  read \<open>reader.result\<close> is \<open>null\<close>; the field is only ever tested for truthiness, so
  the empty string stands for it.
\<close>

definition onloadend :: "env \<Rightarrow> File \<Rightarrow> state \<Rightarrow> state" where
  "onloadend e f s =
     s\<lparr>localLogoDataUri := (case readAsDataURL e f of None \<Rightarrow> [] | Some result \<Rightarrow> result)\<rparr>"

text \<open>The \<open>onChange\<close> of the logo URL input.\<close>

definition logoUrlChange :: "string \<Rightarrow> state \<Rightarrow> state" where
  "logoUrlChange v s = s\<lparr>logoUrl := v, logoFile := None, localLogoDataUri := []\<rparr>"

subsection \<open>\<open>buildEmailHtml\<close>\<close>

definition logoBlock :: "string option \<Rightarrow> string" where
  \<open>logoBlock logoToUse =
     (if truthy logoToUse
      then ''<tr><td align="center" style="padding:20px 0;"><img src="'' @ the logoToUse @
           ''" alt="Company Logo" width="120" style="display:block;margin-bottom:10px;"></td></tr>''
      else [])\<close>

text \<open>
  The template literal, as a function of the five values interpolated into it:
  \<open>config.header\<close> (twice), the logo row or nothing, \<open>qrDataUri\<close>, \<open>config.cta\<close>
  and the year.
\<close>

definition emailTemplate :: "string \<Rightarrow> string \<Rightarrow> string \<Rightarrow> string \<Rightarrow> string \<Rightarrow> string" where
  \<open>emailTemplate configHeader logo qrDataUri configCta year =
      ''<!DOCTYPE html>\<newline>'' @
      ''<html lang="en">\<newline>'' @
      ''<head>\<newline>'' @
      ''  <meta charset="UTF-8">\<newline>'' @
      ''  <title>'' @ configHeader @ ''</title>\<newline>'' @
      ''</head>\<newline>'' @
      ''<body style="margin:0;padding:0;background-color:#f4f4f4;">\<newline>'' @
      ''  <center style="width:100%;background-color:#f4f4f4;">\<newline>'' @
      ''    <table role="presentation" border="0" cellpadding="0" cellspacing="0" style="width:600px;background-color:#ffffff;box-shadow:0 2px 8px rgba(0,0,0,0.1);overflow:hidden;margin:20px auto;">\<newline>'' @
      ''      '' @ logo @ ''\<newline>'' @
      ''      <tr>\<newline>'' @
      ''        <td align="center" style="padding:30px;background-color:#005eb8;color:#ffffff;font-family:Arial,sans-serif;">\<newline>'' @
      ''          <h1 style="margin:0;font-size:24px;">'' @ configHeader @ ''</h1>\<newline>'' @
      ''        </td>\<newline>'' @
      ''      </tr>\<newline>'' @
      ''      <tr>\<newline>'' @
      ''        <td align="center" style="padding:30px;">\<newline>'' @
      ''          <img src="'' @ qrDataUri @ ''" alt="QR Code" width="200" style="display:block;border:1px solid #ddd;border-radius:4px;">\<newline>'' @
      ''          <p style="font-family:Arial,sans-serif;font-size:20px;border-radius:4px;display:inline-block;margin:15px 0 0;">\<newline>'' @
      ''            '' @ configCta @ ''\<newline>'' @
      ''          </p>\<newline>'' @
      ''        </td>\<newline>'' @
      ''      </tr>\<newline>'' @
      ''      <tr>\<newline>'' @
      ''        <td style="padding:20px;font-family:Arial,sans-serif;font-size:14px;color:#333;line-height:1.5;">\<newline>'' @
      ''          If you have any questions, reply to this email or contact our support team.\<newline>'' @
      ''        </td>\<newline>'' @
      ''      </tr>\<newline>'' @
      ''      <tr>\<newline>'' @
      ''        <td align="center" style="padding:20px;font-family:Arial,sans-serif;font-size:12px;color:#777;">\<newline>'' @
      ''          &copy; '' @ year @ '' Company. All rights reserved.\<newline>'' @
      ''        </td>\<newline>'' @
      ''      </tr>\<newline>'' @
      ''    </table>\<newline>'' @
      ''  </center>\<newline>'' @
      ''</body>\<newline>'' @
      ''</html>''\<close>

definition buildEmailHtml :: "env \<Rightarrow> state \<Rightarrow> string \<Rightarrow> string option \<Rightarrow> string" where
  "buildEmailHtml e s qrDataUri logoToUse =
     (let config = orElse (templateConfig (template s)) (templateConfig ''Document'') in
      emailTemplate (headerText config) (logoBlock logoToUse) qrDataUri (ctaText config)
        (toString (getFullYear e)))"

subsection \<open>\<open>handleGenerate\<close>\<close>

text \<open>
  The first block of the \<open>try\<close>: the custom logo, with the effects of resolving it.
\<close>

definition customLogoDataUri :: "env \<Rightarrow> state \<Rightarrow> string option \<times> effect list" where
  "customLogoDataUri e s =
     (if localLogoDataUri s \<noteq> [] then (Some (localLogoDataUri s), [])
      else if logoUrl s \<noteq> [] then
        (case fetchLogoDataUri e (logoUrl s) of
           Inr result \<Rightarrow> (Some result, [Fetch (logoUrl s)])
         | Inl err \<Rightarrow>
             (None, [Fetch (logoUrl s),
                     Alert ''Failed to fetch provided logo URL. Falling back to defaults.'']))
      else (None, []))"

text \<open>\<open>customLogoDataUri || (template === 'Document' ? defaultLogoDataUri : null)\<close>\<close>

definition logoToUse :: "env \<Rightarrow> state \<Rightarrow> string option \<Rightarrow> string option" where
  "logoToUse e s custom =
     (if truthy custom then custom
      else if template s = ''Document'' then Some (defaultLogoDataUri e) else None)"

definition qrOptions :: qr_options where
  "qrOptions = \<lparr> width = 200, margin = 2, dark = ''#000'', light = ''#fff'' \<rparr>"

definition handleGenerate :: "env \<Rightarrow> state \<Rightarrow> state \<times> effect list" where
  "handleGenerate e s =
     (if url s = [] then (s, [Alert ''Please paste a URL first.''])
      else
        (case customLogoDataUri e s of (custom, fx) \<Rightarrow>
           (case toDataURL e (url s) qrOptions of
              Some qrDataUri \<Rightarrow>
                (s\<lparr>html := buildEmailHtml e s qrDataUri (logoToUse e s custom),
                   copyStatus := Idle\<rparr>,
                 fx @ [Encode (url s) qrOptions])
            | None \<Rightarrow>
                (s, fx @ [Encode (url s) qrOptions, ConsoleError,
                          Alert ''Failed to generate QR code.'']))))"

subsection \<open>\<open>handleCopy\<close>\<close>

text \<open>
  The same function in both versions. \<open>writeText(html)\<close> is always called; the
  \<open>then\<close> callback runs only when the promise resolves. The timer it sets fires
  later: \<open>copyTimeout\<close>.
\<close>

definition handleCopy ::
  "'e browser_scheme \<Rightarrow> 's index_state_scheme \<Rightarrow> 's index_state_scheme \<times> effect list" where
  "handleCopy e s =
     (if clipboardGranted e then (s\<lparr>copyStatus := Copied\<rparr>, [WriteText (html s)])
      else (s, [WriteText (html s)]))"

definition copyTimeout :: "'s index_state_scheme \<Rightarrow> 's index_state_scheme" where
  "copyTimeout s = s\<lparr>copyStatus := Idle\<rparr>"

subsection \<open>The earlier version, \<open>src/pages/index.tsx\<close>\<close>

definition index_buildEmailHtml :: "index_env \<Rightarrow> string \<Rightarrow> string" where
  \<open>index_buildEmailHtml e qrDataUri =
      ''<!DOCTYPE html>\<newline>'' @
      ''<html lang="en">\<newline>'' @
      ''<head>\<newline>'' @
      ''  <meta charset="UTF-8">\<newline>'' @
      ''  <title>Document Ready to Sign</title>\<newline>'' @
      ''</head>\<newline>'' @
      ''<body style="margin:0;padding:0;background-color:#f4f4f4;">\<newline>'' @
      ''  <center style="width:100%;background-color:#f4f4f4;">\<newline>'' @
      ''    <table role="presentation" border="0" cellpadding="0" cellspacing="0" width="600" style="background-color:#ffffff;border-radius:8px;box-shadow:0 2px 8px rgba(0,0,0,0.1);overflow:hidden;margin:20px auto;">\<newline>'' @
      ''      <tr>\<newline>'' @
      ''        <td align="center" style="padding:20px 0;">\<newline>'' @
      ''          <img src="'' @ logoDataUri e @ ''" alt="DocuSign" width="120" style="display:block;margin-bottom:10px;">\<newline>'' @
      ''          <img src="'' @ iconDataUri e @ ''" alt="" width="48" style="display:block;">\<newline>'' @
      ''        </td>\<newline>'' @
      ''      </tr>\<newline>'' @
      ''      <tr>\<newline>'' @
      ''        <td align="center" style="padding:30px;background-color:#005eb8;color:#ffffff;font-family:Arial,sans-serif;">\<newline>'' @
      ''          <h1 style="margin:0;font-size:24px;">Your document is ready to review and sign</h1>\<newline>'' @
      ''        </td>\<newline>'' @
      ''      </tr>\<newline>'' @
      ''      <tr>\<newline>'' @
      ''        <td align="center" style="padding:30px;">\<newline>'' @
      ''          <img src="'' @ qrDataUri @ ''" alt="Scan to review document" width="200" style="display:block;border:1px solid #ddd;border-radius:4px;">\<newline>'' @
      ''          <!-- Bold blue instruction matching hero style -->\<newline>'' @
      ''          <p style="font-family:Arial,sans-serif;font-size:18px;font-weight:bold;color:#ffffff;background-color:#005eb8;padding:10px 20px;border-radius:4px;display:inline-block;margin:15px 0 0;">\<newline>'' @
      ''            Scan the QR Code to view or sign the shared document.\<newline>'' @
      ''          </p>\<newline>'' @
      ''        </td>\<newline>'' @
      ''      </tr>\<newline>'' @
      ''      <tr>\<newline>'' @
      ''        <td style="padding:20px;font-family:Arial,sans-serif;font-size:14px;color:#333;line-height:1.5;">\<newline>'' @
      ''          <p>All parties have been completed.</p>\<newline>'' @
      ''          <p>\<newline>'' @
      ''            To review and electronically sign the pending document, please scan the QR code above.\<newline>'' @
      ''            When DocuSign is applied, there is no requirement for a paper copy to be produced.\<newline>'' @
      ''          </p>\<newline>'' @
      ''          <p>Thank you,</p>\<newline>'' @
      ''          <p><strong>The DocuSign Team</strong></p>\<newline>'' @
      ''        </td>\<newline>'' @
      ''      </tr>\<newline>'' @
      ''      <tr>\<newline>'' @
      ''        <td align="center" style="padding:20px;font-family:Arial,sans-serif;font-size:12px;color:#777;">\<newline>'' @
      ''          &copy; '' @ toString (getFullYear e) @ '' DocuSign, Inc. All rights reserved.\<newline>'' @
      ''        </td>\<newline>'' @
      ''      </tr>\<newline>'' @
      ''    </table>\<newline>'' @
      ''  </center>\<newline>'' @
      ''</body>\<newline>'' @
      ''</html>''\<close>

definition index_handleGenerate ::
  "index_env \<Rightarrow> index_state \<Rightarrow> index_state \<times> effect list" where
  "index_handleGenerate e s =
     (if url s = [] then (s, [Alert ''Please paste a URL first.''])
      else
        (case toDataURL e (url s) qrOptions of
           Some qrDataUri \<Rightarrow>
             (s\<lparr>html := index_buildEmailHtml e qrDataUri, copyStatus := Idle\<rparr>,
              [Encode (url s) qrOptions])
         | None \<Rightarrow>
             (s, [Encode (url s) qrOptions, ConsoleError,
                  Alert ''Failed to generate QR code.''])))"

subsection \<open>The page as a transition system\<close>

text \<open>
  What can happen to the mounted component: the user edits a field, picks a file,
  presses a button, or a callback that an earlier handler left behind fires. The
  \<open>FileReader\<close>s still reading and the number of running copy timers are part of
  the configuration, and so is everything the page has done to the outside so far.
\<close>

datatype event =
    UrlChange string
  | TemplateChange string
  | FileChange "File list option"
  | LogoUrlChange string
  | LoadEnd nat
  | Generate
  | Copy
  | Timeout

record app =
  ui :: state
  readers :: "File list"
  timers :: nat
  trace :: "effect list"

definition initial :: app where
  "initial = \<lparr>
     ui = \<lparr> url = [], html = [], copyStatus = Idle, template = ''Document'',
            logoUrl = [], logoFile = None, localLogoDataUri = [] \<rparr>,
     readers = [], timers = 0, trace = [] \<rparr>"

fun dispatch :: "env \<Rightarrow> app \<Rightarrow> event \<Rightarrow> app" where
  "dispatch e a (UrlChange v) = a\<lparr>ui := (ui a)\<lparr>url := v\<rparr>\<rparr>"
| "dispatch e a (TemplateChange v) = a\<lparr>ui := (ui a)\<lparr>template := v\<rparr>\<rparr>"
| "dispatch e a (FileChange files) =
     (case handleFileChange files (ui a) of
        (s, None) \<Rightarrow> a\<lparr>ui := s\<rparr>
      | (s, Some f) \<Rightarrow> a\<lparr>ui := s, readers := readers a @ [f]\<rparr>)"
| "dispatch e a (LogoUrlChange v) = a\<lparr>ui := logoUrlChange v (ui a)\<rparr>"
| "dispatch e a (LoadEnd i) =
     (if i < length (readers a)
      then a\<lparr>ui := onloadend e (readers a ! i) (ui a),
             readers := take i (readers a) @ drop (Suc i) (readers a)\<rparr>
      else a)"
| "dispatch e a Generate =
     (case handleGenerate e (ui a) of (s, fx) \<Rightarrow> a\<lparr>ui := s, trace := trace a @ fx\<rparr>)"
| "dispatch e a Copy =
     (case handleCopy e (ui a) of
        (s, fx) \<Rightarrow>
          a\<lparr>ui := s, trace := trace a @ fx,
            timers := (if clipboardGranted e then Suc (timers a) else timers a)\<rparr>)"
| "dispatch e a Timeout =
     (if 0 < timers a then a\<lparr>ui := copyTimeout (ui a), timers := timers a - 1\<rparr> else a)"

definition run :: "env \<Rightarrow> event list \<Rightarrow> app" where
  "run e evs = foldl (dispatch e) initial evs"

text \<open>The text on the system clipboard: what the last granted \<open>writeText\<close> put there.\<close>

fun clipboard :: "bool \<Rightarrow> effect list \<Rightarrow> string option" where
  "clipboard granted [] = None"
| "clipboard granted (WriteText t # fx) =
     (case clipboard granted fx of
        Some later \<Rightarrow> Some later
      | None \<Rightarrow> if granted then Some t else None)"
| "clipboard granted (x # fx) = clipboard granted fx"

text \<open>The calls of the encoder among the effects of a handler, in order.\<close>

fun encoderCalls :: "effect list \<Rightarrow> (string \<times> qr_options) list" where
  "encoderCalls [] = []"
| "encoderCalls (Encode u opts # fx) = (u, opts) # encoderCalls fx"
| "encoderCalls (x # fx) = encoderCalls fx"

text \<open>
  The \<open>option\<close> elements of the template \<open>select\<close>, and the events that a user of
  the rendered page can cause: the template can only be changed to one of them.
\<close>

definition templateOptions :: "string list" where
  "templateOptions = [''Document'', ''Contract'', ''Invoice'', ''Statement'', ''Payment'']"

fun offered :: "event \<Rightarrow> bool" where
  "offered (TemplateChange v) = (v \<in> set templateOptions)"
| "offered ev = True"


subsection \<open>Vocabulary for statements about documents\<close>


text \<open>
  What a base64 data URL is made of never includes the characters that open a tag,
  close an attribute value or start a placeholder.
\<close>

definition safe :: "string \<Rightarrow> bool" where
  \<open>safe x \<longleftrightarrow> CHR ''<'' \<notin> set x \<and> CHR ''"'' \<notin> set x \<and> CHR ''$'' \<notin> set x\<close>

definition dataUri :: "string \<Rightarrow> bool" where
  "dataUri x \<longleftrightarrow> prefix ''data:'' x \<and> safe x"

text \<open>
  The contract of the two browser facilities that produce images: \<open>FileReader\<close>'s
  \<open>readAsDataURL\<close> and the encoder's \<open>toDataURL\<close> return data URLs.
\<close>

definition deliversDataUris :: "'a browser_scheme \<Rightarrow> bool" where
  "deliversDataUris e \<longleftrightarrow>
     (\<forall>b d. readAsDataURL e b = Some d \<longrightarrow> dataUri d) \<and>
     (\<forall>u opts q. toDataURL e u opts = Some q \<longrightarrow> dataUri q)"















subsection \<open>A concrete world for the examples\<close>

definition exampleFetch :: "string \<Rightarrow> blob option" where
  "exampleFetch u = (if u = ''https://example.com/logo.png'' then Some ''iVBORw0KGgo='' else None)"

definition exampleReadAsDataURL :: "blob \<Rightarrow> string option" where
  "exampleReadAsDataURL b = (if b = [] then None else Some ''data:image/png;base64,iVBORw0KGgo='')"

text \<open>An encoder that gives up beyond the capacity of the largest symbol.\<close>

definition exampleToDataURL :: "string \<Rightarrow> qr_options \<Rightarrow> string option" where
  "exampleToDataURL u opts =
     (if 2953 < length u then None else Some ''data:image/png;base64,iVBORw0KGgoAAAANSUhEUg=='')"

definition exampleEnv :: env where
  "exampleEnv = \<lparr> fetch = exampleFetch, readAsDataURL = exampleReadAsDataURL,
     toDataURL = exampleToDataURL, getFullYear = 2025, clipboardGranted = True,
     defaultLogoDataUri = ''data:image/png;base64,RE9DVVNJR04='' \<rparr>"

definition exampleIndexEnv :: index_env where
  "exampleIndexEnv = \<lparr> fetch = exampleFetch, readAsDataURL = exampleReadAsDataURL,
     toDataURL = exampleToDataURL, getFullYear = 2025, clipboardGranted = True,
     logoDataUri = ''data:image/png;base64,RE9DVVNJR04='',
     iconDataUri = ''data:image/png;base64,SUNPTg=='' \<rparr>"

definition exampleState :: state where
  "exampleState = \<lparr> url = ''https://example.com/doc'', html = ''<p>old</p>'',
     copyStatus = Copied, template = ''Document'', logoUrl = [], logoFile = None,
     localLogoDataUri = [] \<rparr>"

definition exampleIndexState :: index_state where
  "exampleIndexState = \<lparr> url = ''https://example.com/doc'', html = ''<p>old</p>'',
     copyStatus = Copied \<rparr>"

text \<open>A state with a local logo, one with a remote logo that can be fetched, one with a remote
  logo that cannot.\<close>

definition localState :: state where
  "localState = exampleState\<lparr>localLogoDataUri := ''data:image/png;base64,TE9DQUw='',
     logoFile := Some ''LOCAL''\<rparr>"

definition remoteState :: state where
  "remoteState = exampleState\<lparr>logoUrl := ''https://example.com/logo.png''\<rparr>"

definition missingState :: state where
  "missingState = exampleState\<lparr>logoUrl := ''https://example.com/missing.png'',
     template := ''Invoice''\<rparr>"




definition longUrl :: string where
  "longUrl = replicate 3000 (CHR ''a'')"

lemmas example_defs =
  exampleEnv_def exampleIndexEnv_def exampleState_def exampleIndexState_def
  exampleFetch_def exampleReadAsDataURL_def exampleToDataURL_def longUrl_def

section \<open>Properties\<close>

subsection \<open>Rejected and failed generation attempts\<close>

text \<open>
  C2. With an empty target URL, \<open>handleGenerate\<close> does nothing but raise the prompt:
  the state it returns is the state it was given, in every component, and the prompt
  is its only effect (no fetch, no call of the encoder). Both versions of the page.
\<close>

theorem empty_url_rejected:
  "(url s = [] \<longrightarrow> handleGenerate e s = (s, [Alert ''Please paste a URL first.''])) \<and>
   (url t = [] \<longrightarrow> index_handleGenerate e' t = (t, [Alert ''Please paste a URL first.'']))"
  by (simp add: handleGenerate_def index_handleGenerate_def)

theorem empty_url_rejected_witness:
  "url (exampleState\<lparr>url := []\<rparr>) = [] \<and>
   handleGenerate exampleEnv (exampleState\<lparr>url := []\<rparr>) =
     (exampleState\<lparr>url := []\<rparr>, [Alert ''Please paste a URL first.'']) \<and>
   url (exampleIndexState\<lparr>url := []\<rparr>) = [] \<and>
   index_handleGenerate exampleIndexEnv (exampleIndexState\<lparr>url := []\<rparr>) =
     (exampleIndexState\<lparr>url := []\<rparr>, [Alert ''Please paste a URL first.''])"
  using empty_url_rejected [of "exampleState\<lparr>url := []\<rparr>" exampleEnv
      "exampleIndexState\<lparr>url := []\<rparr>" exampleIndexEnv]
  by simp

text \<open>
  C1. When the encoder fails on a non-empty URL, the attempt ends in the \<open>catch\<close>
  block: the state is returned as it was (so the displayed \<open>html\<close> is the old one and
  no document was built), and after whatever resolving the logo did, the effects are
  the encoder call, the console message and the alert. Both versions of the page.
\<close>

theorem encoding_failure_is_fatal:
  "(url s \<noteq> [] \<and> toDataURL e (url s) qrOptions = None \<longrightarrow>
      fst (handleGenerate e s) = s \<and>
      snd (handleGenerate e s) =
        snd (customLogoDataUri e s) @
        [Encode (url s) qrOptions, ConsoleError, Alert ''Failed to generate QR code.'']) \<and>
   (url t \<noteq> [] \<and> toDataURL e' (url t) qrOptions = None \<longrightarrow>
      index_handleGenerate e' t =
        (t, [Encode (url t) qrOptions, ConsoleError, Alert ''Failed to generate QR code.'']))"
  by (simp add: handleGenerate_def index_handleGenerate_def split: prod.splits)

theorem encoding_failure_is_fatal_witness:
  "url (exampleState\<lparr>url := longUrl\<rparr>) \<noteq> [] \<and>
   toDataURL exampleEnv (url (exampleState\<lparr>url := longUrl\<rparr>)) qrOptions = None \<and>
   handleGenerate exampleEnv (exampleState\<lparr>url := longUrl\<rparr>) =
     (exampleState\<lparr>url := longUrl\<rparr>,
      [Encode longUrl qrOptions, ConsoleError, Alert ''Failed to generate QR code.'']) \<and>
   url (exampleIndexState\<lparr>url := longUrl\<rparr>) \<noteq> [] \<and>
   toDataURL exampleIndexEnv (url (exampleIndexState\<lparr>url := longUrl\<rparr>)) qrOptions = None \<and>
   index_handleGenerate exampleIndexEnv (exampleIndexState\<lparr>url := longUrl\<rparr>) =
     (exampleIndexState\<lparr>url := longUrl\<rparr>,
      [Encode longUrl qrOptions, ConsoleError, Alert ''Failed to generate QR code.''])"
proof -
  have u: "longUrl \<noteq> []" "length longUrl = 3000"
    by (simp_all add: longUrl_def)
  have c: "customLogoDataUri exampleEnv (exampleState\<lparr>url := longUrl\<rparr>) = (None, [])"
    by (simp add: customLogoDataUri_def exampleState_def)
  have f: "toDataURL exampleEnv longUrl qrOptions = None"
          "toDataURL exampleIndexEnv longUrl qrOptions = None"
    using u by (simp_all add: exampleEnv_def exampleIndexEnv_def exampleToDataURL_def)
  show ?thesis
    using encoding_failure_is_fatal [of "exampleState\<lparr>url := longUrl\<rparr>" exampleEnv
        "exampleIndexState\<lparr>url := longUrl\<rparr>" exampleIndexEnv] u f c
    by (simp add: prod_eq_iff)
qed

subsection \<open>Copying\<close>

lemma clipboard_snoc:
  "clipboard g (fx @ [WriteText t]) = (if g then Some t else clipboard g fx)"
  by (induction g fx rule: clipboard.induct) (auto split: option.splits)

text \<open>
  C8. When the clipboard write is granted, the text on the clipboard after
  \<open>handleCopy\<close> is the \<open>html\<close> cell of the state, whatever was written before, and
  \<open>handleCopy\<close> does not touch that cell. One function serves both versions.
\<close>

theorem copy_places_html_on_clipboard:
  "clipboardGranted e \<Longrightarrow>
     clipboard (clipboardGranted e) (fx @ snd (handleCopy e s)) = Some (html s) \<and>
     html (fst (handleCopy e s)) = html s"
  by (simp add: handleCopy_def clipboard_snoc)

theorem copy_places_html_on_clipboard_witness:
  "clipboardGranted exampleEnv \<and>
   clipboard (clipboardGranted exampleEnv)
     ([WriteText ''earlier''] @ snd (handleCopy exampleEnv exampleState)) = Some ''<p>old</p>'' \<and>
   html (fst (handleCopy exampleEnv exampleState)) = ''<p>old</p>''"
proof -
  have g: "clipboardGranted exampleEnv"
    by (simp add: exampleEnv_def)
  show ?thesis
    using copy_places_html_on_clipboard [OF g, of "[WriteText ''earlier'']" exampleState] g
    by (simp add: exampleState_def)
qed

text \<open>
  On the page: a successful generation followed by a granted copy leaves on the
  clipboard the document that the generation stored.
\<close>

lemma clipboard_append:
  "clipboard g (xs @ ys) =
     (case clipboard g ys of Some t \<Rightarrow> Some t | None \<Rightarrow> clipboard g xs)"
  by (induction g xs rule: clipboard.induct) (auto split: option.splits)

lemma generate_then_copy:
  assumes "url (ui a) \<noteq> []" "toDataURL e (url (ui a)) qrOptions = Some qr" "clipboardGranted e"
  shows "clipboard (clipboardGranted e) (trace (dispatch e (dispatch e a Generate) Copy)) =
         Some (buildEmailHtml e (ui a) qr
                 (logoToUse e (ui a) (fst (customLogoDataUri e (ui a)))))"
  using assms
  by (simp add: handleGenerate_def handleCopy_def clipboard_append split: prod.splits)

subsection \<open>Selecting no file\<close>

text \<open>
  C10. When the change event of the file input carries no file, \<open>handleFileChange\<close>
  returns the state unchanged and starts no read, so the whole configuration of the
  page stays as it was.
\<close>

theorem no_file_no_change:
  "files = None \<or> files = Some [] \<Longrightarrow>
     handleFileChange files s = (s, None) \<and> dispatch e a (FileChange files) = a"
  by (auto simp: handleFileChange_def)

theorem no_file_no_change_witness:
  "handleFileChange (Some []) exampleState = (exampleState, None) \<and>
   dispatch exampleEnv initial (FileChange (Some [])) = initial"
  using no_file_no_change [of "Some []" exampleState exampleEnv initial]
  by simp

subsection \<open>The encoder call\<close>

lemma sublist_here: "sublist (A @ x @ B) (A @ x @ B @ r)"
  using sublist_append_rightI [of "A @ x @ B" r] by simp

lemma sublist_skip: "sublist X s \<Longrightarrow> sublist X (A @ s)"
  by (metis sublist_append)

text \<open>The image tag with the encoder's result is part of either template.\<close>

lemma qr_img_sublist:
  \<open>sublist (''<img src="'' @ q @ ''" alt="QR Code"'') (emailTemplate h lb q c y)\<close>
proof -
  have a: \<open>''          <img src="'' = ''          '' @ ''<img src="''\<close>
    by simp
  have b: \<open>''" alt="QR Code" width="200" style="display:block;border:1px solid #ddd;border-radius:4px;">\<newline>'' =
      ''" alt="QR Code"'' @ '' width="200" style="display:block;border:1px solid #ddd;border-radius:4px;">\<newline>''\<close>
    by simp
  show ?thesis
    unfolding emailTemplate_def a b append_assoc
    by (rule sublist_here | rule sublist_skip)+
qed

lemma index_qr_img_sublist:
  \<open>sublist (''<img src="'' @ q @ ''" alt="Scan to review document"'') (index_buildEmailHtml e q)\<close>
proof -
  have a: \<open>''          <img src="'' = ''          '' @ ''<img src="''\<close>
    by simp
  have b: \<open>''" alt="Scan to review document" width="200" style="display:block;border:1px solid #ddd;border-radius:4px;">\<newline>'' =
      ''" alt="Scan to review document"'' @ '' width="200" style="display:block;border:1px solid #ddd;border-radius:4px;">\<newline>''\<close>
    by simp
  show ?thesis
    unfolding index_buildEmailHtml_def a b append_assoc
    by (rule sublist_here | rule sublist_skip)+
qed

lemma encoderCalls_append: "encoderCalls (xs @ ys) = encoderCalls xs @ encoderCalls ys"
  by (induction xs rule: encoderCalls.induct) simp_all

lemma customLogo_encoderCalls: "encoderCalls (snd (customLogoDataUri e s)) = []"
  by (simp add: customLogoDataUri_def split: sum.splits)

lemma handleGenerate_stores:
  assumes "url s \<noteq> []"
    and "toDataURL e (url s) \<lparr> width = 200, margin = 2, dark = ''#000'', light = ''#fff'' \<rparr> = Some qr"
  shows "html (fst (handleGenerate e s)) =
         buildEmailHtml e s qr (logoToUse e s (fst (customLogoDataUri e s)))"
  using assms by (simp add: handleGenerate_def qrOptions_def split: prod.splits)

lemma index_handleGenerate_stores:
  assumes "url t \<noteq> []"
    and "toDataURL e (url t) \<lparr> width = 200, margin = 2, dark = ''#000'', light = ''#fff'' \<rparr> = Some qr"
  shows "html (fst (index_handleGenerate e t)) = index_buildEmailHtml e qr"
  using assms by (simp add: index_handleGenerate_def qrOptions_def)

text \<open>
  C7. A generation with a non-empty URL calls the encoder exactly once, with that URL
  and the options width 200, margin 2, dark \<open>#000\<close>, light \<open>#fff\<close>; with an empty URL
  it does not call it. What the encoder returns for the URL at these options is the
  image that the stored document embeds; when the encoder fails the state stays as it
  was. The image depends on nothing else: two generations from states with the same
  URL, in two worlds that share the encoder and may differ in everything else (year,
  logos, network), store documents with one and the same QR image. Both versions of the
  page.
\<close>

theorem qr_encoding_fixed_and_deterministic:
  "encoderCalls (snd (handleGenerate e s)) =
     (if url s = [] then []
      else [(url s, \<lparr> width = 200, margin = 2, dark = ''#000'', light = ''#fff'' \<rparr>)]) \<and>
   encoderCalls (snd (index_handleGenerate e' t)) =
     (if url t = [] then []
      else [(url t, \<lparr> width = 200, margin = 2, dark = ''#000'', light = ''#fff'' \<rparr>)]) \<and>
   (url s \<noteq> [] \<longrightarrow>
      (case toDataURL e (url s) \<lparr> width = 200, margin = 2, dark = ''#000'', light = ''#fff'' \<rparr> of
         Some qr \<Rightarrow>
           html (fst (handleGenerate e s)) =
             buildEmailHtml e s qr (logoToUse e s (fst (customLogoDataUri e s))) \<and>
           sublist (''<img src=\"'' @ qr @ ''\" alt=\"QR Code\"'') (html (fst (handleGenerate e s)))
       | None \<Rightarrow> fst (handleGenerate e s) = s)) \<and>
   (url t \<noteq> [] \<longrightarrow>
      (case toDataURL e' (url t) \<lparr> width = 200, margin = 2, dark = ''#000'', light = ''#fff'' \<rparr> of
         Some qr \<Rightarrow>
           html (fst (index_handleGenerate e' t)) = index_buildEmailHtml e' qr \<and>
           sublist (''<img src=\"'' @ qr @ ''\" alt=\"Scan to review document\"'')
             (html (fst (index_handleGenerate e' t)))
       | None \<Rightarrow> fst (index_handleGenerate e' t) = t)) \<and>
   (url s1 = url s2 \<and> url s1 \<noteq> [] \<and> toDataURL e1 = toDataURL e2 \<and>
    toDataURL e1 (url s1) \<lparr> width = 200, margin = 2, dark = ''#000'', light = ''#fff'' \<rparr> = Some q \<longrightarrow>
      html (fst (handleGenerate e1 s1)) =
        buildEmailHtml e1 s1 q (logoToUse e1 s1 (fst (customLogoDataUri e1 s1))) \<and>
      html (fst (handleGenerate e2 s2)) =
        buildEmailHtml e2 s2 q (logoToUse e2 s2 (fst (customLogoDataUri e2 s2))) \<and>
      sublist (''<img src=\"'' @ q @ ''\" alt=\"QR Code\"'') (html (fst (handleGenerate e1 s1))) \<and>
      sublist (''<img src=\"'' @ q @ ''\" alt=\"QR Code\"'') (html (fst (handleGenerate e2 s2)))) \<and>
   (url t1 = url t2 \<and> url t1 \<noteq> [] \<and> toDataURL e1' = toDataURL e2' \<and>
    toDataURL e1' (url t1) \<lparr> width = 200, margin = 2, dark = ''#000'', light = ''#fff'' \<rparr> = Some q' \<longrightarrow>
      html (fst (index_handleGenerate e1' t1)) = index_buildEmailHtml e1' q' \<and>
      html (fst (index_handleGenerate e2' t2)) = index_buildEmailHtml e2' q' \<and>
      sublist (''<img src=\"'' @ q' @ ''\" alt=\"Scan to review document\"'')
        (html (fst (index_handleGenerate e1' t1))) \<and>
      sublist (''<img src=\"'' @ q' @ ''\" alt=\"Scan to review document\"'')
        (html (fst (index_handleGenerate e2' t2))))"
proof (intro conjI impI)
  show "encoderCalls (snd (handleGenerate e s)) =
     (if url s = [] then []
      else [(url s, \<lparr> width = 200, margin = 2, dark = ''#000'', light = ''#fff'' \<rparr>)])"
    using customLogo_encoderCalls [of e s]
    by (cases "customLogoDataUri e s")
       (auto simp: handleGenerate_def qrOptions_def encoderCalls_append split: option.splits)
  show "encoderCalls (snd (index_handleGenerate e' t)) =
     (if url t = [] then []
      else [(url t, \<lparr> width = 200, margin = 2, dark = ''#000'', light = ''#fff'' \<rparr>)])"
    by (simp add: index_handleGenerate_def qrOptions_def split: option.splits)
next
  assume "url s \<noteq> []"
  then show "case toDataURL e (url s) \<lparr> width = 200, margin = 2, dark = ''#000'', light = ''#fff'' \<rparr> of
         Some qr \<Rightarrow>
           html (fst (handleGenerate e s)) =
             buildEmailHtml e s qr (logoToUse e s (fst (customLogoDataUri e s))) \<and>
           sublist (''<img src=\"'' @ qr @ ''\" alt=\"QR Code\"'') (html (fst (handleGenerate e s)))
       | None \<Rightarrow> fst (handleGenerate e s) = s"
    using qr_img_sublist
    by (auto simp: handleGenerate_stores buildEmailHtml_def Let_def split: option.splits)
       (simp add: handleGenerate_def qrOptions_def split: prod.splits)
next
  assume "url t \<noteq> []"
  then show "case toDataURL e' (url t) \<lparr> width = 200, margin = 2, dark = ''#000'', light = ''#fff'' \<rparr> of
         Some qr \<Rightarrow>
           html (fst (index_handleGenerate e' t)) = index_buildEmailHtml e' qr \<and>
           sublist (''<img src=\"'' @ qr @ ''\" alt=\"Scan to review document\"'')
             (html (fst (index_handleGenerate e' t)))
       | None \<Rightarrow> fst (index_handleGenerate e' t) = t"
    using index_qr_img_sublist
    by (auto simp: index_handleGenerate_stores split: option.splits)
       (simp add: index_handleGenerate_def qrOptions_def)
next
  assume a: "url s1 = url s2 \<and> url s1 \<noteq> [] \<and> toDataURL e1 = toDataURL e2 \<and>
    toDataURL e1 (url s1) \<lparr> width = 200, margin = 2, dark = ''#000'', light = ''#fff'' \<rparr> = Some q"
  then have "url s1 \<noteq> []"
    "toDataURL e1 (url s1) \<lparr> width = 200, margin = 2, dark = ''#000'', light = ''#fff'' \<rparr> = Some q"
    by blast+
  then have 1: "html (fst (handleGenerate e1 s1)) =
        buildEmailHtml e1 s1 q (logoToUse e1 s1 (fst (customLogoDataUri e1 s1)))"
    by (rule handleGenerate_stores)
  from a have "url s2 \<noteq> []"
    "toDataURL e2 (url s2) \<lparr> width = 200, margin = 2, dark = ''#000'', light = ''#fff'' \<rparr> = Some q"
    by auto
  then have 2: "html (fst (handleGenerate e2 s2)) =
        buildEmailHtml e2 s2 q (logoToUse e2 s2 (fst (customLogoDataUri e2 s2)))"
    by (rule handleGenerate_stores)
  show "html (fst (handleGenerate e1 s1)) =
        buildEmailHtml e1 s1 q (logoToUse e1 s1 (fst (customLogoDataUri e1 s1)))"
    by (rule 1)
  show "html (fst (handleGenerate e2 s2)) =
        buildEmailHtml e2 s2 q (logoToUse e2 s2 (fst (customLogoDataUri e2 s2)))"
    by (rule 2)
  show "sublist (''<img src=\"'' @ q @ ''\" alt=\"QR Code\"'') (html (fst (handleGenerate e1 s1)))"
    using qr_img_sublist by (simp add: 1 buildEmailHtml_def Let_def)
  show "sublist (''<img src=\"'' @ q @ ''\" alt=\"QR Code\"'') (html (fst (handleGenerate e2 s2)))"
    using qr_img_sublist by (simp add: 2 buildEmailHtml_def Let_def)
next
  assume a: "url t1 = url t2 \<and> url t1 \<noteq> [] \<and> toDataURL e1' = toDataURL e2' \<and>
    toDataURL e1' (url t1) \<lparr> width = 200, margin = 2, dark = ''#000'', light = ''#fff'' \<rparr> = Some q'"
  then have "url t1 \<noteq> []"
    "toDataURL e1' (url t1) \<lparr> width = 200, margin = 2, dark = ''#000'', light = ''#fff'' \<rparr> = Some q'"
    by blast+
  then have 1: "html (fst (index_handleGenerate e1' t1)) = index_buildEmailHtml e1' q'"
    by (rule index_handleGenerate_stores)
  from a have "url t2 \<noteq> []"
    "toDataURL e2' (url t2) \<lparr> width = 200, margin = 2, dark = ''#000'', light = ''#fff'' \<rparr> = Some q'"
    by auto
  then have 2: "html (fst (index_handleGenerate e2' t2)) = index_buildEmailHtml e2' q'"
    by (rule index_handleGenerate_stores)
  show "html (fst (index_handleGenerate e1' t1)) = index_buildEmailHtml e1' q'"
    by (rule 1)
  show "html (fst (index_handleGenerate e2' t2)) = index_buildEmailHtml e2' q'"
    by (rule 2)
  show "sublist (''<img src=\"'' @ q' @ ''\" alt=\"Scan to review document\"'')
        (html (fst (index_handleGenerate e1' t1)))"
    using index_qr_img_sublist by (simp add: 1)
  show "sublist (''<img src=\"'' @ q' @ ''\" alt=\"Scan to review document\"'')
        (html (fst (index_handleGenerate e2' t2)))"
    using index_qr_img_sublist by (simp add: 2)
qed


theorem qr_encoding_fixed_and_deterministic_witness:
  "encoderCalls (snd (handleGenerate exampleEnv exampleState)) =
     [(''https://example.com/doc'',
       \<lparr> width = 200, margin = 2, dark = ''#000'', light = ''#fff'' \<rparr>)] \<and>
   encoderCalls (snd (index_handleGenerate exampleIndexEnv exampleIndexState)) =
     [(''https://example.com/doc'',
       \<lparr> width = 200, margin = 2, dark = ''#000'', light = ''#fff'' \<rparr>)] \<and>
   url exampleState = url missingState \<and> url exampleState \<noteq> [] \<and>
   toDataURL exampleEnv = toDataURL (exampleEnv\<lparr>getFullYear := 2031\<rparr>) \<and>
   toDataURL exampleEnv (url exampleState)
     \<lparr> width = 200, margin = 2, dark = ''#000'', light = ''#fff'' \<rparr> =
     Some ''data:image/png;base64,iVBORw0KGgoAAAANSUhEUg=='' \<and>
   sublist (''<img src=\"'' @ ''data:image/png;base64,iVBORw0KGgoAAAANSUhEUg=='' @ ''\" alt=\"QR Code\"'')
     (html (fst (handleGenerate exampleEnv exampleState))) \<and>
   sublist (''<img src=\"'' @ ''data:image/png;base64,iVBORw0KGgoAAAANSUhEUg=='' @ ''\" alt=\"QR Code\"'')
     (html (fst (handleGenerate (exampleEnv\<lparr>getFullYear := 2031\<rparr>) missingState))) \<and>
   url exampleIndexState = url (exampleIndexState\<lparr>html := []\<rparr>) \<and>
   url exampleIndexState \<noteq> [] \<and>
   toDataURL exampleIndexEnv = toDataURL (exampleIndexEnv\<lparr>getFullYear := 2031\<rparr>) \<and>
   sublist (''<img src=\"'' @ ''data:image/png;base64,iVBORw0KGgoAAAANSUhEUg=='' @
            ''\" alt=\"Scan to review document\"'')
     (html (fst (index_handleGenerate exampleIndexEnv exampleIndexState))) \<and>
   sublist (''<img src=\"'' @ ''data:image/png;base64,iVBORw0KGgoAAAANSUhEUg=='' @
            ''\" alt=\"Scan to review document\"'')
     (html (fst (index_handleGenerate (exampleIndexEnv\<lparr>getFullYear := 2031\<rparr>)
        (exampleIndexState\<lparr>html := []\<rparr>))))"
proof -
  note t = qr_encoding_fixed_and_deterministic [of exampleEnv exampleState exampleIndexEnv
      exampleIndexState exampleState missingState exampleEnv "exampleEnv\<lparr>getFullYear := 2031\<rparr>"
      "''data:image/png;base64,iVBORw0KGgoAAAANSUhEUg==''"
      exampleIndexState "exampleIndexState\<lparr>html := []\<rparr>" exampleIndexEnv
      "exampleIndexEnv\<lparr>getFullYear := 2031\<rparr>"
      "''data:image/png;base64,iVBORw0KGgoAAAANSUhEUg==''"]
  have u: "url exampleState = ''https://example.com/doc''"
    "url exampleIndexState = ''https://example.com/doc''"
    by (simp_all add: example_defs)
  have h: "url exampleState = url missingState \<and> url exampleState \<noteq> [] \<and>
    toDataURL exampleEnv = toDataURL (exampleEnv\<lparr>getFullYear := 2031\<rparr>) \<and>
    toDataURL exampleEnv (url exampleState)
      \<lparr> width = 200, margin = 2, dark = ''#000'', light = ''#fff'' \<rparr> =
      Some ''data:image/png;base64,iVBORw0KGgoAAAANSUhEUg==''"
    by (simp add: missingState_def example_defs)
  have h': "url exampleIndexState = url (exampleIndexState\<lparr>html := []\<rparr>) \<and>
    url exampleIndexState \<noteq> [] \<and>
    toDataURL exampleIndexEnv = toDataURL (exampleIndexEnv\<lparr>getFullYear := 2031\<rparr>) \<and>
    toDataURL exampleIndexEnv (url exampleIndexState)
      \<lparr> width = 200, margin = 2, dark = ''#000'', light = ''#fff'' \<rparr> =
      Some ''data:image/png;base64,iVBORw0KGgoAAAANSUhEUg==''"
    by (simp add: example_defs)
  have c: "encoderCalls (snd (handleGenerate exampleEnv exampleState)) =
     (if url exampleState = [] then []
      else [(url exampleState, \<lparr> width = 200, margin = 2, dark = ''#000'', light = ''#fff'' \<rparr>)])"
    "encoderCalls (snd (index_handleGenerate exampleIndexEnv exampleIndexState)) =
     (if url exampleIndexState = [] then []
      else [(url exampleIndexState,
             \<lparr> width = 200, margin = 2, dark = ''#000'', light = ''#fff'' \<rparr>)])"
    using t by blast+
  have d: "sublist (''<img src=\"'' @ ''data:image/png;base64,iVBORw0KGgoAAAANSUhEUg=='' @ ''\" alt=\"QR Code\"'')
     (html (fst (handleGenerate exampleEnv exampleState)))"
    "sublist (''<img src=\"'' @ ''data:image/png;base64,iVBORw0KGgoAAAANSUhEUg=='' @ ''\" alt=\"QR Code\"'')
     (html (fst (handleGenerate (exampleEnv\<lparr>getFullYear := 2031\<rparr>) missingState)))"
    using t h by blast+
  have d': "sublist (''<img src=\"'' @ ''data:image/png;base64,iVBORw0KGgoAAAANSUhEUg=='' @
            ''\" alt=\"Scan to review document\"'')
     (html (fst (index_handleGenerate exampleIndexEnv exampleIndexState)))"
    "sublist (''<img src=\"'' @ ''data:image/png;base64,iVBORw0KGgoAAAANSUhEUg=='' @
            ''\" alt=\"Scan to review document\"'')
     (html (fst (index_handleGenerate (exampleIndexEnv\<lparr>getFullYear := 2031\<rparr>)
        (exampleIndexState\<lparr>html := []\<rparr>))))"
    using t h' by blast+
  from c have c': "encoderCalls (snd (handleGenerate exampleEnv exampleState)) =
     [(''https://example.com/doc'',
       \<lparr> width = 200, margin = 2, dark = ''#000'', light = ''#fff'' \<rparr>)]"
    "encoderCalls (snd (index_handleGenerate exampleIndexEnv exampleIndexState)) =
     [(''https://example.com/doc'',
       \<lparr> width = 200, margin = 2, dark = ''#000'', light = ''#fff'' \<rparr>)]"
    by (simp_all add: u)
  from c' h h' d d' show ?thesis
    by blast
qed

subsection \<open>Resolving the logo\<close>

text \<open>
  C3, as the claim states it, fails: with a remote URL whose fetch is rejected and the
  template \<open>Document\<close>, the logo that is used is not "none" but the built-in default.
\<close>

theorem fetch_failure_default_counterexample:
  "localLogoDataUri (exampleState\<lparr>logoUrl := ''https://example.com/missing.png''\<rparr>) = [] \<and>
   logoUrl (exampleState\<lparr>logoUrl := ''https://example.com/missing.png''\<rparr>) \<noteq> [] \<and>
   fetchLogoDataUri exampleEnv ''https://example.com/missing.png'' = Inl FetchRejected \<and>
   logoToUse exampleEnv (exampleState\<lparr>logoUrl := ''https://example.com/missing.png''\<rparr>)
     (fst (customLogoDataUri exampleEnv
        (exampleState\<lparr>logoUrl := ''https://example.com/missing.png''\<rparr>))) \<noteq> None"
  by (simp add: customLogoDataUri_def logoToUse_def fetchLogoDataUri_def example_defs)

text \<open>
  C3, amended. A local image is used directly and nothing is fetched. Otherwise a
  remote URL is fetched, and a non-empty result is used. When the fetch fails the
  warning is raised and resolution goes on as if no logo had been given: in that case,
  and when neither source is set, the built-in default is used for the template
  \<open>Document\<close> and no logo for any other. Whatever the logo resolved to, a generation
  whose encoder call succeeds stores the document built with it.
\<close>

theorem logo_resolution_precedence:
  "(localLogoDataUri s \<noteq> [] \<longrightarrow>
      customLogoDataUri e s = (Some (localLogoDataUri s), []) \<and>
      logoToUse e s (fst (customLogoDataUri e s)) = Some (localLogoDataUri s)) \<and>
   (localLogoDataUri s = [] \<and> logoUrl s \<noteq> [] \<and>
    fetchLogoDataUri e (logoUrl s) = Inr d \<and> d \<noteq> [] \<longrightarrow>
      customLogoDataUri e s = (Some d, [Fetch (logoUrl s)]) \<and>
      logoToUse e s (fst (customLogoDataUri e s)) = Some d) \<and>
   (localLogoDataUri s = [] \<and> logoUrl s \<noteq> [] \<and>
    fetchLogoDataUri e (logoUrl s) = Inl err \<longrightarrow>
      customLogoDataUri e s =
        (None, [Fetch (logoUrl s),
                Alert ''Failed to fetch provided logo URL. Falling back to defaults.'']) \<and>
      logoToUse e s (fst (customLogoDataUri e s)) =
        (if template s = ''Document'' then Some (defaultLogoDataUri e) else None)) \<and>
   (localLogoDataUri s = [] \<and> logoUrl s = [] \<longrightarrow>
      customLogoDataUri e s = (None, []) \<and>
      logoToUse e s (fst (customLogoDataUri e s)) =
        (if template s = ''Document'' then Some (defaultLogoDataUri e) else None)) \<and>
   (url s \<noteq> [] \<and> toDataURL e (url s) qrOptions = Some qr \<longrightarrow>
      handleGenerate e s =
        (s\<lparr>html := buildEmailHtml e s qr (logoToUse e s (fst (customLogoDataUri e s))),
           copyStatus := Idle\<rparr>,
         snd (customLogoDataUri e s) @ [Encode (url s) qrOptions]))"
  by (auto simp: customLogoDataUri_def logoToUse_def handleGenerate_def
      split: prod.splits sum.splits)

theorem logo_resolution_precedence_witness:
  "logoToUse exampleEnv localState (fst (customLogoDataUri exampleEnv localState)) =
     Some ''data:image/png;base64,TE9DQUw='' \<and>
   logoToUse exampleEnv remoteState (fst (customLogoDataUri exampleEnv remoteState)) =
     Some ''data:image/png;base64,iVBORw0KGgo='' \<and>
   logoToUse exampleEnv missingState (fst (customLogoDataUri exampleEnv missingState)) = None \<and>
   logoToUse exampleEnv exampleState (fst (customLogoDataUri exampleEnv exampleState)) =
     Some ''data:image/png;base64,RE9DVVNJR04='' \<and>
   handleGenerate exampleEnv missingState =
     (missingState\<lparr>html := buildEmailHtml exampleEnv missingState
          ''data:image/png;base64,iVBORw0KGgoAAAANSUhEUg=='' None, copyStatus := Idle\<rparr>,
      [Fetch ''https://example.com/missing.png'',
       Alert ''Failed to fetch provided logo URL. Falling back to defaults.'',
       Encode ''https://example.com/doc'' qrOptions])"
proof -
  note p = logo_resolution_precedence [where e = exampleEnv and err = FetchRejected
      and d = "''data:image/png;base64,iVBORw0KGgo=''"
      and qr = "''data:image/png;base64,iVBORw0KGgoAAAANSUhEUg==''"]
  have v: "localLogoDataUri localState = ''data:image/png;base64,TE9DQUw=''"
    "logoUrl remoteState = ''https://example.com/logo.png''"
    "logoUrl missingState = ''https://example.com/missing.png''"
    "template missingState = ''Invoice''" "url missingState = ''https://example.com/doc''"
    "template exampleState = ''Document''"
    "defaultLogoDataUri exampleEnv = ''data:image/png;base64,RE9DVVNJR04=''"
    by (simp_all add: localState_def remoteState_def missingState_def example_defs)
  have h1: "localLogoDataUri localState \<noteq> []"
    by (simp add: v)
  have h2: "localLogoDataUri remoteState = [] \<and> logoUrl remoteState \<noteq> [] \<and>
      fetchLogoDataUri exampleEnv (logoUrl remoteState) = Inr ''data:image/png;base64,iVBORw0KGgo='' \<and>
      ''data:image/png;base64,iVBORw0KGgo='' \<noteq> []"
    by (simp add: remoteState_def fetchLogoDataUri_def example_defs)
  have h3: "localLogoDataUri missingState = [] \<and> logoUrl missingState \<noteq> [] \<and>
      fetchLogoDataUri exampleEnv (logoUrl missingState) = Inl FetchRejected"
    by (simp add: missingState_def fetchLogoDataUri_def example_defs)
  have h4: "localLogoDataUri exampleState = [] \<and> logoUrl exampleState = []"
    by (simp add: example_defs)
  have h5: "url missingState \<noteq> [] \<and>
      toDataURL exampleEnv (url missingState) qrOptions =
        Some ''data:image/png;base64,iVBORw0KGgoAAAANSUhEUg==''"
    by (simp add: missingState_def example_defs)
  have a: "logoToUse exampleEnv localState (fst (customLogoDataUri exampleEnv localState)) =
      Some (localLogoDataUri localState)"
    using p [of localState] h1 by blast
  have b: "logoToUse exampleEnv remoteState (fst (customLogoDataUri exampleEnv remoteState)) =
      Some ''data:image/png;base64,iVBORw0KGgo=''"
    using p [of remoteState] h2 by blast
  have c: "customLogoDataUri exampleEnv missingState =
      (None, [Fetch (logoUrl missingState),
              Alert ''Failed to fetch provided logo URL. Falling back to defaults.''])"
    "logoToUse exampleEnv missingState (fst (customLogoDataUri exampleEnv missingState)) =
      (if template missingState = ''Document'' then Some (defaultLogoDataUri exampleEnv) else None)"
    using p [of missingState] h3 by blast+
  have d: "logoToUse exampleEnv exampleState (fst (customLogoDataUri exampleEnv exampleState)) =
      (if template exampleState = ''Document'' then Some (defaultLogoDataUri exampleEnv) else None)"
    using p [of exampleState] h4 by blast
  have g: "handleGenerate exampleEnv missingState =
     (missingState\<lparr>html := buildEmailHtml exampleEnv missingState
          ''data:image/png;base64,iVBORw0KGgoAAAANSUhEUg==''
          (logoToUse exampleEnv missingState (fst (customLogoDataUri exampleEnv missingState))),
        copyStatus := Idle\<rparr>,
      snd (customLogoDataUri exampleEnv missingState) @ [Encode (url missingState) qrOptions])"
    using p [of missingState] h5 by blast
  have c2: "logoToUse exampleEnv missingState (fst (customLogoDataUri exampleEnv missingState)) = None"
    unfolding c(2) by (simp add: v)
  show ?thesis
    unfolding a b d g c2 unfolding c(1) by (simp add: v)
qed

subsection \<open>Changing the template\<close>

text \<open>
  C5, as the claim states it, fails: with no logo given, the template \<open>Document\<close>
  gets the row with the default logo and the template \<open>Contract\<close> gets no logo row,
  so the two documents differ in more than header and call-to-action text.
\<close>

theorem template_change_counterexample:
  "html (fst (handleGenerate exampleEnv exampleState)) =
     emailTemplate (headerText (templateConfig ''Document''))
       (logoBlock (Some ''data:image/png;base64,RE9DVVNJR04=''))
       ''data:image/png;base64,iVBORw0KGgoAAAANSUhEUg==''
       (ctaText (templateConfig ''Document'')) (toString 2025) \<and>
   html (fst (handleGenerate exampleEnv (exampleState\<lparr>template := ''Contract''\<rparr>))) =
     emailTemplate (headerText (templateConfig ''Contract'')) []
       ''data:image/png;base64,iVBORw0KGgoAAAANSUhEUg==''
       (ctaText (templateConfig ''Contract'')) (toString 2025) \<and>
   logoBlock (Some ''data:image/png;base64,RE9DVVNJR04='') \<noteq> []"
  by (simp add: handleGenerate_def customLogoDataUri_def logoToUse_def buildEmailHtml_def
      templateConfig_def logoBlock_def example_defs)

text \<open>
  C5, amended. Two generations in the same world from states with the same URL and
  the same logo inputs fill the one template with the same QR image and the same
  year; the template kind selects the header and call-to-action text. The logo row is
  the same as well whenever a custom logo was resolved, or the two kinds are both
  \<open>Document\<close> or both something else. (Without a custom logo, \<open>Document\<close> alone gets
  the default logo row.)
\<close>

theorem template_change_frame:
  "url s1 = url s2 \<and> url s1 \<noteq> [] \<and> logoUrl s1 = logoUrl s2 \<and>
   localLogoDataUri s1 = localLogoDataUri s2 \<and> toDataURL e (url s1) qrOptions = Some qr \<longrightarrow>
     html (fst (handleGenerate e s1)) =
       emailTemplate
         (headerText (orElse (templateConfig (template s1)) (templateConfig ''Document'')))
         (logoBlock (logoToUse e s1 (fst (customLogoDataUri e s1)))) qr
         (ctaText (orElse (templateConfig (template s1)) (templateConfig ''Document'')))
         (toString (getFullYear e)) \<and>
     html (fst (handleGenerate e s2)) =
       emailTemplate
         (headerText (orElse (templateConfig (template s2)) (templateConfig ''Document'')))
         (logoBlock (logoToUse e s2 (fst (customLogoDataUri e s2)))) qr
         (ctaText (orElse (templateConfig (template s2)) (templateConfig ''Document'')))
         (toString (getFullYear e)) \<and>
     (truthy (fst (customLogoDataUri e s1)) \<or>
      (template s1 = ''Document'') = (template s2 = ''Document'') \<longrightarrow>
        logoToUse e s1 (fst (customLogoDataUri e s1)) =
        logoToUse e s2 (fst (customLogoDataUri e s2)))"
proof (intro impI)
  assume a: "url s1 = url s2 \<and> url s1 \<noteq> [] \<and> logoUrl s1 = logoUrl s2 \<and>
    localLogoDataUri s1 = localLogoDataUri s2 \<and> toDataURL e (url s1) qrOptions = Some qr"
  then have c: "customLogoDataUri e s1 = customLogoDataUri e s2"
    by (auto simp: customLogoDataUri_def split: sum.splits)
  have "html (fst (handleGenerate e s)) =
      buildEmailHtml e s qr (logoToUse e s (fst (customLogoDataUri e s)))"
    if "url s \<noteq> []" "toDataURL e (url s) qrOptions = Some qr" for s
    using that by (simp add: handleGenerate_def split: prod.splits)
  from this [of s1] this [of s2] a c
  show "html (fst (handleGenerate e s1)) =
       emailTemplate
         (headerText (orElse (templateConfig (template s1)) (templateConfig ''Document'')))
         (logoBlock (logoToUse e s1 (fst (customLogoDataUri e s1)))) qr
         (ctaText (orElse (templateConfig (template s1)) (templateConfig ''Document'')))
         (toString (getFullYear e)) \<and>
     html (fst (handleGenerate e s2)) =
       emailTemplate
         (headerText (orElse (templateConfig (template s2)) (templateConfig ''Document'')))
         (logoBlock (logoToUse e s2 (fst (customLogoDataUri e s2)))) qr
         (ctaText (orElse (templateConfig (template s2)) (templateConfig ''Document'')))
         (toString (getFullYear e)) \<and>
     (truthy (fst (customLogoDataUri e s1)) \<or>
      (template s1 = ''Document'') = (template s2 = ''Document'') \<longrightarrow>
        logoToUse e s1 (fst (customLogoDataUri e s1)) =
        logoToUse e s2 (fst (customLogoDataUri e s2)))"
    by (auto simp: buildEmailHtml_def Let_def logoToUse_def)
qed

theorem template_change_frame_witness:
  "url localState = url (localState\<lparr>template := ''Payment''\<rparr>) \<and> url localState \<noteq> [] \<and>
   toDataURL exampleEnv (url localState) qrOptions =
     Some ''data:image/png;base64,iVBORw0KGgoAAAANSUhEUg=='' \<and>
   truthy (fst (customLogoDataUri exampleEnv localState)) \<and>
   html (fst (handleGenerate exampleEnv localState)) =
     emailTemplate ''Your document is ready to review and sign''
       (logoBlock (Some ''data:image/png;base64,TE9DQUw=''))
       ''data:image/png;base64,iVBORw0KGgoAAAANSUhEUg==''
       ''Scan the QR Code below to view or sign the shared document.'' (toString 2025) \<and>
   html (fst (handleGenerate exampleEnv (localState\<lparr>template := ''Payment''\<rparr>))) =
     emailTemplate ''Payment Notification: Your payment details are ready''
       (logoBlock (Some ''data:image/png;base64,TE9DQUw=''))
       ''data:image/png;base64,iVBORw0KGgoAAAANSUhEUg==''
       ''Scan the QR Code below to review and confirm all invoices included in this payment.''
       (toString 2025)"
proof -
  define s2 where "s2 = localState\<lparr>template := ''Payment''\<rparr>"
  have h: "url localState = url s2" "url localState \<noteq> []"
    "logoUrl localState = logoUrl s2" "localLogoDataUri localState = localLogoDataUri s2"
    "toDataURL exampleEnv (url localState) qrOptions =
       Some ''data:image/png;base64,iVBORw0KGgoAAAANSUhEUg==''"
    by (simp_all add: s2_def localState_def example_defs)
  have c: "customLogoDataUri exampleEnv localState =
      (Some ''data:image/png;base64,TE9DQUw='', [])"
    "customLogoDataUri exampleEnv s2 = (Some ''data:image/png;base64,TE9DQUw='', [])"
    by (simp_all add: s2_def customLogoDataUri_def localState_def exampleState_def)
  have l: "logoToUse exampleEnv localState (Some ''data:image/png;base64,TE9DQUw='') =
      Some ''data:image/png;base64,TE9DQUw=''"
    "logoToUse exampleEnv s2 (Some ''data:image/png;base64,TE9DQUw='') =
      Some ''data:image/png;base64,TE9DQUw=''"
    by (simp_all add: logoToUse_def)
  have t: "headerText (orElse (templateConfig (template localState)) (templateConfig ''Document'')) =
      ''Your document is ready to review and sign''"
    "ctaText (orElse (templateConfig (template localState)) (templateConfig ''Document'')) =
      ''Scan the QR Code below to view or sign the shared document.''"
    "headerText (orElse (templateConfig (template s2)) (templateConfig ''Document'')) =
      ''Payment Notification: Your payment details are ready''"
    "ctaText (orElse (templateConfig (template s2)) (templateConfig ''Document'')) =
      ''Scan the QR Code below to review and confirm all invoices included in this payment.''"
    "getFullYear exampleEnv = 2025"
    by (simp_all add: s2_def localState_def exampleState_def templateConfig_def exampleEnv_def)
  have "html (fst (handleGenerate exampleEnv localState)) =
     emailTemplate ''Your document is ready to review and sign''
       (logoBlock (Some ''data:image/png;base64,TE9DQUw=''))
       ''data:image/png;base64,iVBORw0KGgoAAAANSUhEUg==''
       ''Scan the QR Code below to view or sign the shared document.'' (toString 2025) \<and>
   html (fst (handleGenerate exampleEnv s2)) =
     emailTemplate ''Payment Notification: Your payment details are ready''
       (logoBlock (Some ''data:image/png;base64,TE9DQUw=''))
       ''data:image/png;base64,iVBORw0KGgoAAAANSUhEUg==''
       ''Scan the QR Code below to review and confirm all invoices included in this payment.''
       (toString 2025)"
    using template_change_frame [of localState s2 exampleEnv
        "''data:image/png;base64,iVBORw0KGgoAAAANSUhEUg==''"] h
    unfolding c fst_conv l t
    by blast
  then show ?thesis
    using h(1,2,5) c(1) unfolding s2_def by simp
qed

subsection \<open>Template names outside the five kinds\<close>




text \<open>
  On the page the template is changed only through the \<open>select\<close>, which offers the five
  kinds: whatever the user does, the template stays one of them.
\<close>

lemma handleGenerate_template: "template (fst (handleGenerate e s)) = template s"
  by (simp add: handleGenerate_def split: prod.splits option.splits)

lemma dispatch_template:
  assumes "offered ev" "template (ui a) \<in> set templateOptions"
  shows "template (ui (dispatch e a ev)) \<in> set templateOptions"
proof (cases ev)
  case (FileChange files)
  with assms(2) show ?thesis
    by (auto simp: handleFileChange_def split: option.splits list.splits)
next
  case Generate
  with assms(2) show ?thesis
    using handleGenerate_template [of e "ui a"]
    by (auto split: prod.splits)
qed (insert assms, auto simp: logoUrlChange_def onloadend_def handleCopy_def copyTimeout_def)

lemma template_offered:
  "list_all offered evs \<Longrightarrow> template (ui (run e evs)) \<in> set templateOptions"
proof (induction evs rule: rev_induct)
  case Nil
  then show ?case by (simp add: run_def initial_def templateOptions_def)
next
  case (snoc ev evs)
  then show ?case
    using dispatch_template [of ev "run e evs" e] by (simp add: run_def)
qed

subsection \<open>The two logo sources\<close>

text \<open>What the two handlers clear when they run.\<close>

lemma handleFileChange_clears_url:
  "handleFileChange (Some (f # fs)) s = (s', r) \<Longrightarrow>
     logoFile s' = Some f \<and> logoUrl s' = [] \<and> r = Some f \<and>
     localLogoDataUri s' = localLogoDataUri s"
  by (auto simp: handleFileChange_def)

lemma logoUrlChange_clears_file:
  "logoFile (logoUrlChange v s) = None \<and> localLogoDataUri (logoUrlChange v s) = [] \<and>
   logoUrl (logoUrlChange v s) = v"
  by (simp add: logoUrlChange_def)

lemma handleGenerate_logo_cells:
  "logoFile (fst (handleGenerate e s)) = logoFile s \<and>
   logoUrl (fst (handleGenerate e s)) = logoUrl s \<and>
   localLogoDataUri (fst (handleGenerate e s)) = localLogoDataUri s"
  by (simp add: handleGenerate_def split: prod.splits option.splits)

text \<open>
  The cells \<open>logoFile\<close> and \<open>logoUrl\<close> are never both set, in any configuration the
  page can reach.
\<close>

lemma dispatch_exclusive:
  assumes "logoFile (ui a) = None \<or> logoUrl (ui a) = []"
  shows "logoFile (ui (dispatch e a ev)) = None \<or> logoUrl (ui (dispatch e a ev)) = []"
proof (cases ev)
  case (FileChange files)
  with assms show ?thesis
    by (auto simp: handleFileChange_def split: option.splits list.splits)
next
  case Generate
  with assms show ?thesis
    using handleGenerate_logo_cells [of e "ui a"]
    by (auto split: prod.splits)
qed (insert assms, auto simp: logoUrlChange_def onloadend_def handleCopy_def copyTimeout_def)

lemma logoFile_logoUrl_exclusive:
  "logoFile (ui (run e evs)) = None \<or> logoUrl (ui (run e evs)) = []"
proof (induction evs rule: rev_induct)
  case Nil
  then show ?case by (simp add: run_def initial_def)
next
  case (snoc ev evs)
  then show ?case
    using dispatch_exclusive [of "run e evs" e ev] by (simp add: run_def)
qed

text \<open>
  When the read of the file has finished before the URL is typed, the URL is the only
  source left.
\<close>

lemma url_after_finished_read:
  "localLogoDataUri (ui (run exampleEnv [FileChange (Some [''iVBORw0KGgo='']), LoadEnd 0,
       LogoUrlChange ''https://example.com/logo.png''])) = [] \<and>
   logoFile (ui (run exampleEnv [FileChange (Some [''iVBORw0KGgo='']), LoadEnd 0,
       LogoUrlChange ''https://example.com/logo.png''])) = None"
  by (simp add: run_def initial_def handleFileChange_def logoUrlChange_def onloadend_def
      example_defs)

text \<open>
  C4 at the sequence: a file is selected, a logo URL is entered while the file is
  still being read, the read finishes. The \<open>onloadend\<close> callback of the abandoned read
  then sets \<open>localLogoDataUri\<close> although the URL field has cleared it, so both sources
  are set at once, and a generation uses the local image and never fetches the URL.
\<close>

theorem stale_file_read_sets_local_logo:
  "logoUrl (ui (run exampleEnv [FileChange (Some [''iVBORw0KGgo='']),
       LogoUrlChange ''https://example.com/logo.png'', LoadEnd 0])) =
     ''https://example.com/logo.png'' \<and>
   localLogoDataUri (ui (run exampleEnv [FileChange (Some [''iVBORw0KGgo='']),
       LogoUrlChange ''https://example.com/logo.png'', LoadEnd 0])) =
     ''data:image/png;base64,iVBORw0KGgo='' \<and>
   customLogoDataUri exampleEnv (ui (run exampleEnv [FileChange (Some [''iVBORw0KGgo='']),
       LogoUrlChange ''https://example.com/logo.png'', LoadEnd 0])) =
     (Some ''data:image/png;base64,iVBORw0KGgo='', [])"
  by (simp add: run_def initial_def handleFileChange_def logoUrlChange_def onloadend_def
      customLogoDataUri_def example_defs)

subsection \<open>The pieces put into the template\<close>










text \<open>
  In every configuration the page can reach, \<open>localLogoDataUri\<close> is empty or a data
  URL, provided the \<open>FileReader\<close> keeps its contract.
\<close>

lemma dispatch_local_dataUri:
  assumes "deliversDataUris e"
    and "localLogoDataUri (ui a) = [] \<or> dataUri (localLogoDataUri (ui a))"
  shows "localLogoDataUri (ui (dispatch e a ev)) = [] \<or>
         dataUri (localLogoDataUri (ui (dispatch e a ev)))"
proof (cases ev)
  case (FileChange files)
  with assms(2) show ?thesis
    by (auto simp: handleFileChange_def split: option.splits list.splits)
next
  case (LoadEnd i)
  with assms show ?thesis
    by (auto simp: onloadend_def deliversDataUris_def split: option.splits)
next
  case Generate
  with assms(2) show ?thesis
    using handleGenerate_logo_cells [of e "ui a"]
    by (auto split: prod.splits)
qed (insert assms(2), auto simp: logoUrlChange_def handleCopy_def copyTimeout_def)

lemma reachable_local_dataUri:
  assumes "deliversDataUris e"
  shows "localLogoDataUri (ui (run e evs)) = [] \<or> dataUri (localLogoDataUri (ui (run e evs)))"
proof (induction evs rule: rev_induct)
  case Nil
  then show ?case by (simp add: run_def initial_def)
next
  case (snoc ev evs)
  then show ?case
    using dispatch_local_dataUri [OF assms, of "run e evs" ev] by (simp add: run_def)
qed

subsection \<open>Scanning the two templates\<close>












subsection \<open>The document as markup\<close>



subsection \<open>The generated document\<close>





end
